theory Spec2Isabelle
  imports Complex_Main
begin

section \<open>Data model\<close>

text \<open>
  The backend keeps its data in MongoDB collections accessed through Mongoose models.
  A document id (an ObjectId) is a natural number here, a Date is the clock reading in
  milliseconds, and a schema enum is a datatype with one constructor per allowed string.
  A JavaScript Number is the rational it denotes; NaN is the missing value of an option
  and the infinities are left out. Comparisons are exact, and every sum, product and
  quotient the code computes is rounded to the nearest double by \<open>fl\<close>.
\<close>

type_synonym oid = nat

subsection \<open>Double arithmetic\<close>

text \<open>Rounding to the nearest double, ties to even: a positive \<open>x\<close> with
  \<open>2 ^ e \<le> x < 2 ^ (e + 1)\<close> becomes the nearest multiple of \<open>2 ^ (e - 52)\<close>. The
  range of the exponent (overflow, subnormal numbers) is not modelled.\<close>

fun bit_length :: "nat \<Rightarrow> nat" where
  "bit_length n = (if n = 0 then 0 else Suc (bit_length (n div 2)))"

declare bit_length.simps [simp del]

definition pow2 :: "int \<Rightarrow> rat" where
  "pow2 k = (if 0 \<le> k then 2 ^ nat k else 1 / 2 ^ nat (- k))"

definition floor_log2 :: "rat \<Rightarrow> int" where
  "floor_log2 x =
     (case quotient_of x of
        (n, d) \<Rightarrow>
          (let k = int (bit_length (nat n)) - int (bit_length (nat d))
           in if pow2 k \<le> x then k else k - 1))"

definition round_half_even :: "rat \<Rightarrow> int" where
  "round_half_even x =
     (let f = \<lfloor>x\<rfloor>; d = x - of_int f
      in if d < 1 / 2 then f else if 1 / 2 < d then f + 1 else if even f then f else f + 1)"

definition fl :: "rat \<Rightarrow> rat" where
  "fl x =
     (if x = 0 then 0
      else (let p = pow2 (floor_log2 \<bar>x\<bar> - 52) in of_int (round_half_even (x / p)) * p))"

subsection \<open>The library and the caller\<close>

text \<open>The version of Mongoose is not fixed by the sources. The handlers depend on it in
  one place: \<^verbatim>\<open>document.populate(path, select)\<close> returns the document itself in Mongoose 5
  (and populates nothing unless \<^verbatim>\<open>execPopulate\<close> is called), and a promise from Mongoose 6
  on, on which a second \<^verbatim>\<open>.populate\<close> is not a function.\<close>

datatype mongoose = Mongoose5 | Mongoose6

text \<open>\<^verbatim>\<open>req.user\<close> is the payload of the token, which \<^verbatim>\<open>routes/auth.js\<close> signs as
  \<^verbatim>\<open>{_id, role}\<close>: it has no \<^verbatim>\<open>name\<close>.\<close>

datatype role = Farmer | Buyer | Investor | Admin

record user =
  u_id :: oid
  u_role :: role

text \<open>\<^verbatim>\<open>models/FundingRequest.js\<close>: the status enum, the embedded investor entries and farmer
  updates, and the document itself. The schema declares the path \<^verbatim>\<open>id\<close> of an update as a
  required String; an update pushed without it has \<open>upd_id = None\<close>. The schema's
  \<^verbatim>\<open>method\<close> is the field \<open>growingMethod\<close>.\<close>

datatype fr_status = Pending | PartiallyFunded | Funded | Completed | Cancelled

record investor_entry =
  investorId :: oid
  entry_amount :: rat
  entry_txHash :: string
  entry_investmentDate :: int

record update_entry =
  upd_id :: "string option"
  upd_date :: int
  upd_text :: string

record funding_request =
  fr_id :: oid
  farmerWallet :: oid
  title :: string
  crop :: string
  acres :: rat
  amount :: rat
  growingMethod :: string
  description :: string
  timeline :: int
  roi :: rat
  investorShare :: rat
  cid :: string
  fundedAmount :: rat
  status :: fr_status
  investors :: "investor_entry list"
  updates :: "update_entry list"

text \<open>\<^verbatim>\<open>models/Investment.js\<close>. Of the fields copied from the project by the model's pre-save
  hook only the farmer and the ROI are read again by a route; the other copies
  (title, crop, method, ...) are left out. A field the schema leaves optional is an option.\<close>

datatype inv_status = Active | Growing | Harvested | InvCancelled

record investment =
  inv_id :: oid
  investorWallet :: oid
  projectId :: oid
  inv_farmerWallet :: "oid option"
  inv_roi :: "rat option"
  inv_amount :: rat
  inv_status :: inv_status
  progress :: int
  investmentDate :: int
  inv_txHash :: string
  payoutAmount :: "rat option"
  payoutDate :: "int option"
  payoutTxHash :: "string option"
  payoutNotified :: bool

text \<open>\<^verbatim>\<open>models/Transaction.js\<close>: the ledger entry. \<^verbatim>\<open>txHash\<close> is required and carries a
  unique index.\<close>

datatype tx_type = TxInvestment | TxPayout | TxPurchase | TxSale

record transaction =
  tx_userId :: oid
  tx_txHash :: string
  tx_type :: tx_type
  tx_amount :: rat
  tx_projectId :: "oid option"
  tx_date :: int

text \<open>\<^verbatim>\<open>models/Notification.js\<close>, without the message text; \<open>recipient = None\<close> is a global
  notification.\<close>

record notification =
  recipient :: "oid option"
  n_type :: string
  itemId :: oid

record video =
  v_cid :: string
  v_farmerWallet :: oid

text \<open>The database: one list per collection, in insertion order.\<close>

record db =
  fundingRequests :: "funding_request list"
  investments :: "investment list"
  transactions :: "transaction list"
  notifications :: "notification list"
  videos :: "video list"

text \<open>The responses a handler sends instead of its result. The two 400 responses of the
  progress route and the ones of the other routes are kept apart by their message.\<close>

datatype error =
    Forbidden             \<comment> \<open>403\<close>
  | MissingFields         \<comment> \<open>400, a required body field is absent\<close>
  | InvalidId             \<comment> \<open>400, "Invalid ... ID format"\<close>
  | InvalidAmount         \<comment> \<open>400, "Invalid investment amount"\<close>
  | InvalidNumericValues  \<comment> \<open>400, "Invalid numeric values provided"\<close>
  | InvalidMethod         \<comment> \<open>400, "Invalid growing method specified"\<close>
  | InvalidProgressValue  \<comment> \<open>400, "Invalid progress value provided"\<close>
  | InvalidStatusValue    \<comment> \<open>400, "Invalid status value provided"\<close>
  | NoUpdateData          \<comment> \<open>400, "No update data provided"\<close>
  | TerminalState         \<comment> \<open>400, "Cannot ... terminal state"\<close>
  | AlreadyFunded         \<comment> \<open>400, "Cannot cancel funding request: It has already received funding"\<close>
  | NotFound              \<comment> \<open>404\<close>
  | Conflict              \<comment> \<open>409\<close>
  | ValidationError       \<comment> \<open>400, a Mongoose ValidationError caught by the handler\<close>
  | ServerError           \<comment> \<open>500, any other exception caught by the handler\<close>

section \<open>Collections\<close>

text \<open>\<^verbatim>\<open>findById\<close> returns the document with the given id; a write to an existing document
  replaces that one document.\<close>

definition find_fr :: "db \<Rightarrow> oid \<Rightarrow> funding_request option" where
  "find_fr s i = find (\<lambda>r. fr_id r = i) (fundingRequests s)"

definition find_inv :: "db \<Rightarrow> oid \<Rightarrow> investment option" where
  "find_inv s i = find (\<lambda>r. inv_id r = i) (investments s)"

fun replace_doc :: "('a \<Rightarrow> oid) \<Rightarrow> 'a \<Rightarrow> 'a list \<Rightarrow> 'a list" where
  "replace_doc key d [] = []"
| "replace_doc key d (x # xs) = (if key x = key d then d # xs else x # replace_doc key d xs)"

definition store_fr :: "db \<Rightarrow> funding_request \<Rightarrow> db" where
  "store_fr s r = s\<lparr>fundingRequests := replace_doc fr_id r (fundingRequests s)\<rparr>"

definition store_inv :: "db \<Rightarrow> investment \<Rightarrow> db" where
  "store_inv s r = s\<lparr>investments := replace_doc inv_id r (investments s)\<rparr>"

definition add_notification :: "db \<Rightarrow> notification \<Rightarrow> db" where
  "add_notification s n = s\<lparr>notifications := notifications s @ [n]\<rparr>"

section \<open>The FundingRequest model: validation and the pre-save hook\<close>

text \<open>The schema's validators, run by \<^verbatim>\<open>save()\<close> before the hook below: required strings
  are non-empty, numbers are within their \<^verbatim>\<open>min\<close>/\<^verbatim>\<open>max\<close>, every embedded update has
  its \<^verbatim>\<open>id\<close> and \<^verbatim>\<open>text\<close>, every investor entry a non-negative amount.\<close>

definition methods :: "string list" where
  "methods = [''organic'', ''conventional'', ''hydroponic'', ''aquaponic'', ''regenerative'']"

definition validate_update :: "update_entry \<Rightarrow> bool" where
  "validate_update u = (upd_id u \<noteq> None \<and> upd_id u \<noteq> Some [] \<and> upd_text u \<noteq> [])"

definition validate_fr :: "funding_request \<Rightarrow> bool" where
  "validate_fr r =
     (title r \<noteq> [] \<and> length (title r) \<le> 100 \<and> crop r \<noteq> [] \<and>
      1 / 10 \<le> acres r \<and> 1 \<le> amount r \<and> growingMethod r \<in> set methods \<and>
      description r \<noteq> [] \<and> length (description r) \<le> 1000 \<and>
      1 \<le> timeline r \<and> timeline r \<le> 36 \<and>
      0 \<le> roi r \<and> roi r \<le> 100 \<and> 0 \<le> investorShare r \<and> investorShare r \<le> 100 \<and>
      cid r \<noteq> [] \<and> 0 \<le> fundedAmount r \<and>
      list_all (\<lambda>e. 0 \<le> entry_amount e) (investors r) \<and>
      list_all validate_update (updates r))"

text \<open>\<^verbatim>\<open>fundingRequestSchema.pre('save')\<close>, lines 195-207: clamp the funded amount to the
  requested amount, then derive the status from the funded amount. (The first part of
  the hook copies the storage type and file hash of the video into a new document; those
  two fields are not modelled.)\<close>

definition pre_save :: "funding_request \<Rightarrow> funding_request" where
  "pre_save r =
     (let r1 = (if fundedAmount r > amount r then r\<lparr>fundedAmount := amount r\<rparr> else r)
      in r1\<lparr>status :=
               (if fundedAmount r1 \<ge> amount r1 then Funded
                else if fundedAmount r1 > 0 then PartiallyFunded
                else Pending)\<rparr>)"

text \<open>\<^verbatim>\<open>document.save()\<close>: validation, then the hook, then the write. A failed validation
  throws a ValidationError and writes nothing. \<open>save_fr\<close> saves a document that was
  loaded from the collection, \<open>save_new_fr\<close> one built with \<^verbatim>\<open>new FundingRequest\<close>.\<close>

definition save_fr :: "db \<Rightarrow> funding_request \<Rightarrow> error + (db \<times> funding_request)" where
  "save_fr s r =
     (if validate_fr r then (let r' = pre_save r in Inr (store_fr s r', r'))
      else Inl ValidationError)"

definition save_new_fr :: "db \<Rightarrow> funding_request \<Rightarrow> error + (db \<times> funding_request)" where
  "save_new_fr s r =
     (if validate_fr r
      then (let r' = pre_save r in Inr (s\<lparr>fundingRequests := fundingRequests s @ [r']\<rparr>, r'))
      else Inl ValidationError)"

section \<open>The Investment and Transaction models\<close>

text \<open>\<^verbatim>\<open>investmentSchema.pre('save')\<close> fills the copied fields of a new document from its
  project, when the project exists. The validators bound the amount and the progress.\<close>

definition populate_investment :: "db \<Rightarrow> investment \<Rightarrow> investment" where
  "populate_investment s i =
     (case find_fr s (projectId i) of
        None \<Rightarrow> i
      | Some p \<Rightarrow> i\<lparr>inv_farmerWallet := Some (farmerWallet p), inv_roi := Some (roi p)\<rparr>)"

definition validate_inv :: "investment \<Rightarrow> bool" where
  "validate_inv i = (0 \<le> inv_amount i \<and> 0 \<le> progress i \<and> progress i \<le> 100)"

definition save_new_inv :: "db \<Rightarrow> investment \<Rightarrow> error + (db \<times> investment)" where
  "save_new_inv s i =
     (if validate_inv i
      then (let i' = populate_investment s i in Inr (s\<lparr>investments := investments s @ [i']\<rparr>, i'))
      else Inl ValidationError)"

definition save_inv :: "db \<Rightarrow> investment \<Rightarrow> error + (db \<times> investment)" where
  "save_inv s i = (if validate_inv i then Inr (store_inv s i, i) else Inl ValidationError)"

text \<open>Saving a Transaction: the validators first (a hash is required, the amount is not
  negative), then the insert, which the unique index on \<^verbatim>\<open>txHash\<close> rejects with a
  duplicate-key error when the hash is already in the collection.\<close>

definition save_transaction :: "db \<Rightarrow> transaction \<Rightarrow> error + db" where
  "save_transaction s t =
     (if tx_txHash t = [] \<or> tx_amount t < 0 then Inl ValidationError
      else if tx_txHash t \<in> set (map tx_txHash (transactions s)) then Inl ServerError
      else Inr (s\<lparr>transactions := transactions s @ [t]\<rparr>))"

section \<open>POST /api/investments\<close>

text \<open>A body field as the handler sees it: absent, present but not a value of its type
  (\<^verbatim>\<open>parseFloat\<close> gives NaN, \<^verbatim>\<open>ObjectId.isValid\<close> is false), or a value.\<close>

datatype 'a field = Absent | Malformed | Given 'a

text \<open>What the handler takes from its environment: the hash made by
  \<^verbatim>\<open>generateSimulatedTxHash('sim_invest')\<close>, the clock when the investor entry is built, the
  clock when the entry is looked up again (one reading for the whole lookup), and the id
  of the new Investment document.\<close>

record invest_env =
  new_txHash :: string
  push_now :: int
  find_now :: int
  new_inv_id :: oid

text \<open>\<^verbatim>\<open>FundingRequest.findByIdAndUpdate(projectId, {$inc, $push}, {new: true})\<close>: one atomic
  update of the stored document, returning the updated document or null. It is not a
  \<^verbatim>\<open>save()\<close>: Mongoose runs no save hook for it, so neither the clamp nor the status
  derivation of \<open>pre_save\<close> happens here. (\<^verbatim>\<open>runValidators\<close> checks the pushed entry only,
  whose amount is positive.)\<close>

definition inc_push :: "funding_request \<Rightarrow> rat \<Rightarrow> investor_entry \<Rightarrow> funding_request" where
  "inc_push r a e =
     r\<lparr>fundedAmount := fl (fundedAmount r + a), investors := investors r @ [e]\<rparr>"

definition findByIdAndUpdate ::
  "db \<Rightarrow> oid \<Rightarrow> rat \<Rightarrow> investor_entry \<Rightarrow> (db \<times> funding_request) option" where
  "findByIdAndUpdate s pid a e =
     (case find_fr s pid of
        None \<Rightarrow> None
      | Some r \<Rightarrow> (let r' = inc_push r a e in Some (store_fr s r', r')))"

text \<open>The investor entry of the \<^verbatim>\<open>$push\<close>, lines 153-165.\<close>

definition new_entry :: "user \<Rightarrow> rat \<Rightarrow> invest_env \<Rightarrow> investor_entry" where
  "new_entry u a env =
     \<lparr>investorId = u_id u, entry_amount = a, entry_txHash = new_txHash env,
      entry_investmentDate = push_now env\<rparr>"

text \<open>The predicate of \<^verbatim>\<open>updatedFundingRequest.investors.find(...)\<close>, lines 186-189: same
  investor, same amount, dated less than five seconds before the lookup.\<close>

definition matches_entry :: "oid \<Rightarrow> rat \<Rightarrow> int \<Rightarrow> investor_entry \<Rightarrow> bool" where
  "matches_entry uid a now e =
     (investorId e = uid \<and> entry_amount e = a \<and> now - entry_investmentDate e < 5000)"

text \<open>Lines 144-247 of the handler, its writes. Each exit returns the database as it is
  at that point: nothing is rolled back. The last step, the notification of the farmer
  (lines 227-245), writes nothing: its message starts with
  \<^verbatim>\<open>req.user.name.split(' ')[0]\<close>, \<^verbatim>\<open>req.user.name\<close> is undefined, and the TypeError is
  caught and logged by the inner \<^verbatim>\<open>try\<close>.\<close>

definition invest_try :: "db \<Rightarrow> user \<Rightarrow> oid \<Rightarrow> rat \<Rightarrow> invest_env \<Rightarrow> db \<times> (error + investment)" where
  "invest_try s u pid a env =
     (case findByIdAndUpdate s pid a (new_entry u a env) of
        None \<Rightarrow> (s, Inl NotFound)
      | Some (s1, r) \<Rightarrow>
          (case find (matches_entry (u_id u) a (find_now env)) (investors r) of
             None \<Rightarrow> (s1, Inl ServerError)
           | Some investorEntry \<Rightarrow>
               (case save_new_inv s1
                       \<lparr>inv_id = new_inv_id env, investorWallet = u_id u, projectId = fr_id r,
                        inv_farmerWallet = None, inv_roi = None, inv_amount = a,
                        inv_status = Active, progress = 0,
                        investmentDate = entry_investmentDate investorEntry,
                        inv_txHash = entry_txHash investorEntry,
                        payoutAmount = None, payoutDate = None, payoutTxHash = None,
                        payoutNotified = False\<rparr> of
                  Inl err \<Rightarrow> (s1, Inl err)
                | Inr (s2, savedInvestment) \<Rightarrow>
                    (case save_transaction s2
                            \<lparr>tx_userId = u_id u, tx_txHash = inv_txHash savedInvestment,
                             tx_type = TxInvestment, tx_amount = inv_amount savedInvestment,
                             tx_projectId = Some (projectId savedInvestment),
                             tx_date = investmentDate savedInvestment\<rparr> of
                       Inl err \<Rightarrow> (s2, Inl err)
                     | Inr s3 \<Rightarrow> (s3, Inr savedInvestment)))))"

text \<open>Building the response from the record, lines 248-292 (and 533-581 of the progress
  handler): \<^verbatim>\<open>await record.populate(...).populate(...)\<close>, then the formatted object, whose
  \<^verbatim>\<open>farmerName\<close> is \<^verbatim>\<open>record.farmerWallet.name.split(' ')[0]\<close> when the record has a farmer.
  From Mongoose 6 on the second \<^verbatim>\<open>.populate\<close> throws. In Mongoose 5 nothing is populated,
  the farmer of the record is an ObjectId, its \<^verbatim>\<open>name\<close> is undefined and \<^verbatim>\<open>split\<close> throws.
  The TypeError reaches the outer \<^verbatim>\<open>catch\<close>, which answers 500. Nothing is written.\<close>

definition respond_investment :: "mongoose \<Rightarrow> investment \<Rightarrow> error + investment" where
  "respond_investment m r =
     (if m = Mongoose5 \<and> inv_farmerWallet r = None then Inr r else Inl ServerError)"

text \<open>The handler, lines 113-303: role, presence of the fields, the amount, the format of
  the project id, then the writes and the response.\<close>

definition invest ::
  "mongoose \<Rightarrow> db \<Rightarrow> user \<Rightarrow> oid field \<Rightarrow> rat field \<Rightarrow> invest_env
     \<Rightarrow> db \<times> (error + investment)" where
  "invest m s u projectId_f amount_f env =
     (if u_role u \<noteq> Investor then (s, Inl Forbidden)
      else if projectId_f = Absent \<or> amount_f = Absent then (s, Inl MissingFields)
      else
        (case amount_f of
           Given parsedAmount \<Rightarrow>
             (if parsedAmount \<le> 0 then (s, Inl InvalidAmount)
              else
                (case projectId_f of
                   Given pid \<Rightarrow>
                     (case invest_try s u pid parsedAmount env of
                        (s', Inl err) \<Rightarrow> (s', Inl err)
                      | (s', Inr savedInvestment) \<Rightarrow> (s', respond_investment m savedInvestment))
                 | _ \<Rightarrow> (s, Inl InvalidId)))
         | _ \<Rightarrow> (s, Inl InvalidAmount)))"

section \<open>PUT /api/investments/:id/progress\<close>

text \<open>The environment of the progress handler: the clock and the hash made by
  \<^verbatim>\<open>generateSimulatedTxHash('sim_payout')\<close>.\<close>

record progress_env =
  now :: int
  payout_txHash :: string

text \<open>The white space of \<^verbatim>\<open>String.prototype.trim\<close> and of \<^verbatim>\<open>parseInt\<close>. A character of
  the model is a code unit below 256: the white space is the space, the tab, the line
  and page separators of ASCII, and the no-break space.\<close>

definition is_space :: "char \<Rightarrow> bool" where
  "is_space c =
     (c \<in> set [CHR '' '', CHR 0x09, CHR 0x0A, CHR 0x0B, CHR 0x0C, CHR 0x0D, CHR 0xA0])"

definition trim :: "string \<Rightarrow> string" where
  "trim t = rev (dropWhile is_space (rev (dropWhile is_space t)))"

text \<open>\<^verbatim>\<open>Investment.find({projectId}).distinct('investorWallet')\<close> and the notifications made
  from it with \<^verbatim>\<open>Notification.insertMany\<close>.\<close>

definition investorsInProject :: "db \<Rightarrow> oid \<Rightarrow> oid list" where
  "investorsInProject s pid =
     remdups (map investorWallet (filter (\<lambda>i. projectId i = pid) (investments s)))"

definition notify_investors :: "db \<Rightarrow> oid \<Rightarrow> db" where
  "notify_investors s pid =
     s\<lparr>notifications := notifications s @
          map (\<lambda>investorId. \<lparr>recipient = Some investorId, n_type = ''update'', itemId = pid\<rparr>)
              (investorsInProject s pid)\<rparr>"

text \<open>Lines 366-446: the status transition of the record and, the first time it is
  harvested, the payout. The result is the database, the record as changed in memory
  and the flag \<^verbatim>\<open>payoutTriggered\<close>. A record without a copied ROI gives the payout amount
  NaN, which the Transaction's validation refuses. The two payout notifications are
  built from fields of the record and are stored.\<close>

definition progress_transition ::
  "db \<Rightarrow> investment \<Rightarrow> progress_env \<Rightarrow> error + (db \<times> investment \<times> bool)" where
  "progress_transition s i env =
     (if progress i \<ge> 100 \<and> inv_status i \<noteq> Harvested then
        (let i1 = i\<lparr>inv_status := Harvested\<rparr> in
         if payoutNotified i1 then Inr (s, i1, False)
         else
           (case inv_roi i1 of
              None \<Rightarrow> Inl ValidationError
            | Some roi_v \<Rightarrow>
                (let calculatedPayoutAmount = fl (inv_amount i1 * fl (roi_v / 100));
                     i2 = i1\<lparr>payoutAmount := Some calculatedPayoutAmount,
                             payoutDate := Some (now env),
                             payoutTxHash := Some (payout_txHash env)\<rparr>
                 in case save_transaction s
                           \<lparr>tx_userId = investorWallet i2, tx_txHash = payout_txHash env,
                            tx_type = TxPayout, tx_amount = calculatedPayoutAmount,
                            tx_projectId = map_option fr_id (find_fr s (projectId i2)),
                            tx_date = now env\<rparr> of
                      Inl err \<Rightarrow> Inl err
                    | Inr s1 \<Rightarrow>
                        Inr (add_notification
                               (add_notification s1
                                  \<lparr>recipient = Some (investorWallet i2), n_type = ''payout'',
                                   itemId = inv_id i2\<rparr>)
                               \<lparr>recipient = inv_farmerWallet i2, n_type = ''payout'',
                                itemId = inv_id i2\<rparr>,
                             i2\<lparr>payoutNotified := True\<rparr>, True))))
      else if progress i > 0 \<and> inv_status i = Active then Inr (s, i\<lparr>inv_status := Growing\<rparr>, False)
      else if progress i = 0 \<and> inv_status i \<noteq> Active \<and> inv_status i \<noteq> Harvested \<and>
              inv_status i \<noteq> InvCancelled
      then (if inv_status i \<noteq> Growing then Inr (s, i\<lparr>inv_status := Active\<rparr>, False)
            else Inr (s, i, False))
      else Inr (s, i, False))"

text \<open>Lines 450-489: an update text that is not blank is pushed to the project's updates,
  as \<^verbatim>\<open>{_id, date, text}\<close> (no \<^verbatim>\<open>id\<close>), the project is saved and its investors are
  notified.\<close>

definition append_note :: "db \<Rightarrow> investment \<Rightarrow> string option \<Rightarrow> progress_env \<Rightarrow> error + db" where
  "append_note s i updateText env =
     (case updateText of
        None \<Rightarrow> Inr s
      | Some t \<Rightarrow>
          (if trim t = [] then Inr s
           else
             (case find_fr s (projectId i) of
                None \<Rightarrow> Inr s
              | Some fundingRequestToUpdate \<Rightarrow>
                  (case save_fr s
                          (fundingRequestToUpdate
                             \<lparr>updates := updates fundingRequestToUpdate @
                                [\<lparr>upd_id = None, upd_date = now env, upd_text = trim t\<rparr>]\<rparr>) of
                     Inl err \<Rightarrow> Inl err
                   | Inr (s1, saved) \<Rightarrow> Inr (notify_investors s1 (projectId i))))))"

text \<open>Lines 495-530: after the record is saved, when the payout ran and every Investment of
  the project is harvested, the project is loaded, its status is set to completed and it is
  saved with \<^verbatim>\<open>save()\<close>, which runs \<open>pre_save\<close>.\<close>

definition completion_check :: "db \<Rightarrow> investment \<Rightarrow> bool \<Rightarrow> error + db" where
  "completion_check s updatedInvestment payoutTriggered =
     (if payoutTriggered \<and> inv_status updatedInvestment = Harvested \<and>
         find_fr s (projectId updatedInvestment) \<noteq> None
      then
        (let totalInvestmentsInProject =
               length (filter (\<lambda>x. projectId x = projectId updatedInvestment) (investments s));
             harvestedInvestmentsInProject =
               length (filter (\<lambda>x. projectId x = projectId updatedInvestment \<and>
                                    inv_status x = Harvested) (investments s))
         in if totalInvestmentsInProject > 0 \<and>
               totalInvestmentsInProject = harvestedInvestmentsInProject
            then
              (case find_fr s (projectId updatedInvestment) of
                 None \<Rightarrow> Inr s
               | Some fundingRequest \<Rightarrow>
                   (if status fundingRequest \<noteq> Completed
                    then
                      (case save_fr s (fundingRequest\<lparr>status := Completed\<rparr>) of
                         Inl err \<Rightarrow> Inl err
                       | Inr (s1, saved) \<Rightarrow>
                           Inr (add_notification s1
                                  \<lparr>recipient = Some (farmerWallet saved), n_type = ''update'',
                                   itemId = fr_id saved\<rparr>))
                    else Inr s))
            else Inr s)
      else Inr s)"

text \<open>\<^verbatim>\<open>parseInt(progress, 10)\<close>, line 332, on the string of the body's value (a JSON number
  100.5 is the string \<open>''100.5''\<close>): white space and a sign are skipped, the decimal digits
  that follow are read, and whatever comes after them is ignored; without a digit the
  result is NaN, here \<open>None\<close>.\<close>

definition is_digit :: "char \<Rightarrow> bool" where
  "is_digit c = (c \<in> set ''0123456789'')"

definition digits_val :: "string \<Rightarrow> int" where
  "digits_val ds = foldl (\<lambda>acc c. 10 * acc + (int (of_char c) - 48)) 0 ds"

definition parseInt10 :: "string \<Rightarrow> int option" where
  "parseInt10 t =
     (let t1 = dropWhile is_space t;
          neg = (take 1 t1 = ''-'');
          t2 = (if take 1 t1 = ''-'' \<or> take 1 t1 = ''+'' then drop 1 t1 else t1);
          ds = takeWhile is_digit t2
      in if ds = [] then None else Some (if neg then - digits_val ds else digits_val ds))"

text \<open>Lines 360-530, the writes of the handler for a record that passed the checks. An
  exception leaves what was written before it.\<close>

definition progress_writes ::
  "db \<Rightarrow> investment \<Rightarrow> int \<Rightarrow> string option \<Rightarrow> progress_env \<Rightarrow> db \<times> (error + investment)" where
  "progress_writes s investment parsedProgress updateText env =
     (case progress_transition s (investment\<lparr>progress := parsedProgress\<rparr>) env of
        Inl err \<Rightarrow> (s, Inl err)
      | Inr (s1, investment', payoutTriggered) \<Rightarrow>
          (case append_note s1 investment' updateText env of
             Inl err \<Rightarrow> (s1, Inl err)
           | Inr s2 \<Rightarrow>
               (case save_inv s2 investment' of
                  Inl err \<Rightarrow> (s2, Inl err)
                | Inr (s3, updatedInvestment) \<Rightarrow>
                    (case completion_check s3 updatedInvestment payoutTriggered of
                       Inl err \<Rightarrow> (s3, Inl err)
                     | Inr s4 \<Rightarrow> (s4, Inr updatedInvestment)))))"

text \<open>The handler, lines 313-591. \<open>progress_f\<close> is the body's \<^verbatim>\<open>progress\<close> as a string,
  \<open>None\<close> when it is undefined. Any authenticated user may call it (the role is only
  logged). Users are not a collection of the model: the investor of a record is taken to
  exist.\<close>

definition update_progress ::
  "mongoose \<Rightarrow> db \<Rightarrow> oid \<Rightarrow> string option \<Rightarrow> string option \<Rightarrow> progress_env
     \<Rightarrow> db \<times> (error + investment)" where
  "update_progress m s investmentId progress_f updateText env =
     (case Option.bind progress_f parseInt10 of
        None \<Rightarrow> (s, Inl InvalidProgressValue)
      | Some parsedProgress \<Rightarrow>
          (if parsedProgress < 0 \<or> parsedProgress > 100 then (s, Inl InvalidProgressValue)
           else
             (case find_inv s investmentId of
                None \<Rightarrow> (s, Inl NotFound)
              | Some investment \<Rightarrow>
                  (if (inv_status investment = Harvested \<or> inv_status investment = InvCancelled) \<and>
                      (parsedProgress < 100 \<or> inv_status investment = InvCancelled)
                   then (s, Inl TerminalState)
                   else
                     (case progress_writes s investment parsedProgress updateText env of
                        (s', Inl err) \<Rightarrow> (s', Inl err)
                      | (s', Inr updatedInvestment) \<Rightarrow>
                          (s', respond_investment m updatedInvestment))))))"

section \<open>The funding-request routes\<close>

text \<open>PUT /api/funding-requests/:id, lines 399-522: the owning farmer appends an update,
  changes the status, or both. \<open>status_f\<close> is the body's \<^verbatim>\<open>status\<close>, \<open>None\<close> when
  undefined. The investors are notified of an update before the document is saved. The
  answer is the saved document after \<^verbatim>\<open>await updatedRequest.populate(...).populate(...)\<close>,
  lines 507-508, which throws from Mongoose 6 on.\<close>

definition respond_request :: "mongoose \<Rightarrow> funding_request \<Rightarrow> error + funding_request" where
  "respond_request m r = (if m = Mongoose5 then Inr r else Inl ServerError)"

definition parse_status :: "string \<Rightarrow> fr_status option" where
  "parse_status t =
     (if t = ''pending'' then Some Pending
      else if t = ''partially_funded'' then Some PartiallyFunded
      else if t = ''funded'' then Some Funded
      else if t = ''completed'' then Some Completed
      else if t = ''cancelled'' then Some Cancelled
      else None)"

definition push_update :: "db \<Rightarrow> funding_request \<Rightarrow> string option \<Rightarrow> int \<Rightarrow> db \<times> funding_request" where
  "push_update s request updateText clock =
     (case updateText of
        None \<Rightarrow> (s, request)
      | Some t \<Rightarrow>
          (if trim t = [] then (s, request)
           else (notify_investors s (fr_id request),
                 request\<lparr>updates := updates request @
                            [\<lparr>upd_id = None, upd_date = clock, upd_text = trim t\<rparr>]\<rparr>)))"

definition update_request ::
  "mongoose \<Rightarrow> db \<Rightarrow> user \<Rightarrow> oid \<Rightarrow> string option \<Rightarrow> string option \<Rightarrow> int
     \<Rightarrow> db \<times> (error + funding_request)" where
  "update_request m s u requestId updateText status_f clock =
     (if (updateText = None \<or> updateText = Some []) \<and> status_f = None then (s, Inl NoUpdateData)
      else
        (case find_fr s requestId of
           None \<Rightarrow> (s, Inl NotFound)
         | Some request \<Rightarrow>
             (if farmerWallet request \<noteq> u_id u then (s, Inl Forbidden)
              else
                (case push_update s request updateText clock of
                   (s1, request1) \<Rightarrow>
                     (case status_f of
                        None \<Rightarrow>
                          (case save_fr s1 request1 of
                             Inl err \<Rightarrow> (s1, Inl err)
                           | Inr (s2, updatedRequest) \<Rightarrow> (s2, respond_request m updatedRequest))
                      | Some t \<Rightarrow>
                          (case parse_status t of
                             None \<Rightarrow> (s1, Inl InvalidStatusValue)
                           | Some newStatus \<Rightarrow>
                               (if (status request1 = Cancelled \<or> status request1 = Completed) \<and>
                                   newStatus \<noteq> status request1
                                then (s1, Inl TerminalState)
                                else
                                  (case save_fr s1 (request1\<lparr>status := newStatus\<rparr>) of
                                     Inl err \<Rightarrow> (s1, Inl err)
                                   | Inr (s2, updatedRequest) \<Rightarrow> (s2, respond_request m updatedRequest)))))))))"


text \<open>POST /api/funding-requests, lines 268-393. A string field of the body is \<open>None\<close>
  when undefined or null; a numeric field is absent, not a number, or a number.\<close>

record create_body =
  b_title :: "string option"
  b_crop :: "string option"
  b_acres :: "rat field"
  b_amount :: "rat field"
  b_method :: "string option"
  b_cid :: "string option"
  b_description :: "string option"
  b_timeline :: "int field"
  b_roi :: "rat field"
  b_investorShare :: "rat field"

definition missing :: "string option \<Rightarrow> bool" where
  "missing f = (case f of None \<Rightarrow> True | Some t \<Rightarrow> trim t = [])"

definition text_of :: "string option \<Rightarrow> string" where
  "text_of f = (case f of None \<Rightarrow> [] | Some t \<Rightarrow> t)"

text \<open>The statuses of the query that looks for a request already using the video; its
  fourth value, \<^verbatim>\<open>'growing'\<close>, is not a status of a funding request. Both queries of the
  handler filter on the body's \<^verbatim>\<open>cid\<close>, to which Mongoose applies the \<^verbatim>\<open>trim\<close> of the
  schemas. The answer is the saved document (one \<^verbatim>\<open>populate\<close>, which does not throw).\<close>

definition active_statuses :: "fr_status list" where
  "active_statuses = [Pending, PartiallyFunded, Funded]"

definition create_request ::
  "db \<Rightarrow> user \<Rightarrow> create_body \<Rightarrow> oid \<Rightarrow> int \<Rightarrow> db \<times> (error + funding_request)" where
  "create_request s u b new_id clock =
     (if u_role u \<noteq> Farmer then (s, Inl Forbidden)
      else if missing (b_title b) \<or> missing (b_crop b) \<or> b_acres b = Absent \<or>
              b_amount b = Absent \<or> missing (b_method b) \<or> missing (b_cid b) \<or>
              missing (b_description b) \<or> b_timeline b = Absent \<or> b_roi b = Absent \<or>
              b_investorShare b = Absent
      then (s, Inl MissingFields)
      else
        (case (b_acres b, b_amount b, b_timeline b, b_roi b, b_investorShare b) of
           (Given parsedAcres, Given parsedAmount, Given parsedTimeline, Given parsedRoi,
            Given parsedInvestorShare) \<Rightarrow>
             (if parsedAcres \<le> 0 \<or> parsedAmount \<le> 0 \<or> parsedTimeline \<le> 0 \<or>
                 parsedRoi < 0 \<or> parsedRoi > 100 \<or>
                 parsedInvestorShare < 0 \<or> parsedInvestorShare > 100
              then (s, Inl InvalidNumericValues)
              else if text_of (b_method b) \<notin> set methods then (s, Inl InvalidMethod)
              else
                (case find (\<lambda>v. v_cid v = trim (text_of (b_cid b)) \<and> v_farmerWallet v = u_id u)
                           (videos s) of
                   None \<Rightarrow> (s, Inl NotFound)
                 | Some video \<Rightarrow>
                     (case find (\<lambda>r. cid r = trim (text_of (b_cid b)) \<and> status r \<in> set active_statuses)
                                (fundingRequests s) of
                        Some existingActiveRequest \<Rightarrow> (s, Inl Conflict)
                      | None \<Rightarrow>
                          (case save_new_fr s
                                  \<lparr>fr_id = new_id, farmerWallet = u_id u,
                                   title = trim (text_of (b_title b)),
                                   crop = trim (text_of (b_crop b)),
                                   acres = parsedAcres, amount = parsedAmount,
                                   growingMethod = text_of (b_method b),
                                   description = trim (text_of (b_description b)),
                                   timeline = parsedTimeline, roi = parsedRoi,
                                   investorShare = parsedInvestorShare, cid = v_cid video,
                                   fundedAmount = 0, status = Pending, investors = [],
                                   updates = []\<rparr> of
                             Inl err \<Rightarrow> (s, Inl err)
                           | Inr (s1, savedRequest) \<Rightarrow>
                               (add_notification s1
                                  \<lparr>recipient = None, n_type = ''funding'',
                                   itemId = fr_id savedRequest\<rparr>,
                                Inr savedRequest)))))
         | _ \<Rightarrow> (s, Inl InvalidNumericValues)))"

section \<open>A scenario\<close>

text \<open>The scenario of the specification: a farmer with one video asks for 50 units at
  25 percent; the investors A and B fund the request. Every number of the scenario is
  an integer or a half, so that no operation rounds.\<close>

definition farmer1 :: user where
  "farmer1 = \<lparr>u_id = 10, u_role = Farmer\<rparr>"

definition investorA :: user where
  "investorA = \<lparr>u_id = 20, u_role = Investor\<rparr>"

definition investorB :: user where
  "investorB = \<lparr>u_id = 21, u_role = Investor\<rparr>"

definition db_init :: db where
  "db_init = \<lparr>fundingRequests = [], investments = [], transactions = [], notifications = [],
              videos = [\<lparr>v_cid = ''cid1'', v_farmerWallet = 10\<rparr>]\<rparr>"

definition wheat_body :: create_body where
  "wheat_body =
     \<lparr>b_title = Some ''Wheat'', b_crop = Some ''Wheat'', b_acres = Given 10,
      b_amount = Given 50, b_method = Some ''organic'', b_cid = Some ''cid1'',
      b_description = Some ''Expand'', b_timeline = Given 6, b_roi = Given 25,
      b_investorShare = Given 20\<rparr>"

text \<open>The database after the farmer created the request; the request has id 1.\<close>

definition db_created :: db where
  "db_created = fst (create_request db_init farmer1 wheat_body 1 0)"

text \<open>An Invest call of the scenario: the investor, the amount, the hash, the time of
  the call (the entry is looked up one millisecond after it is built) and the id of the
  new record. The states below are those of Mongoose 6; the writes of a handler do not
  depend on the version (\<open>invest_writes_version\<close> and the lemmas after it).\<close>

definition invest_at ::
  "mongoose \<Rightarrow> db \<Rightarrow> user \<Rightarrow> rat \<Rightarrow> string \<Rightarrow> int \<Rightarrow> oid \<Rightarrow> db \<times> (error + investment)" where
  "invest_at m s u a h t i =
     invest m s u (Given 1) (Given a)
       \<lparr>new_txHash = h, push_now = t, find_now = t + 1, new_inv_id = i\<rparr>"

text \<open>Investor A funds the whole request; the record (id 100) is then taken to 100 percent.\<close>

definition db_funded :: db where
  "db_funded = fst (invest_at Mongoose6 db_created investorA 50 ''h1'' 1000 100)"

definition payout_env :: progress_env where
  "payout_env = \<lparr>now = 5000, payout_txHash = ''p1''\<rparr>"

definition db_harvested :: db where
  "db_harvested = fst (update_progress Mongoose6 db_funded 100 (Some ''100'') None payout_env)"

definition rec_harvested :: investment where
  "rec_harvested =
     \<lparr>inv_id = 100, investorWallet = 20, projectId = 1, inv_farmerWallet = Some 10,
      inv_roi = Some 25, inv_amount = 50, inv_status = Harvested, progress = 100,
      investmentDate = 1000, inv_txHash = ''h1'', payoutAmount = Some (25 / 2),
      payoutDate = Some 5000, payoutTxHash = Some ''p1'', payoutNotified = True\<rparr>"

definition later_env :: progress_env where
  "later_env = \<lparr>now = 7000, payout_txHash = ''p7''\<rparr>"

text \<open>The same record, sent the progress 100.5 instead.\<close>

definition db_fraction :: db where
  "db_fraction =
     fst (update_progress Mongoose6 db_funded 100 (Some ''100.5'') None payout_env)"

text \<open>Two investors, as in the scenario of the specification: A invests 30, B invests 20
  (records 100 and 101), then A's record and B's record are taken to 100 percent.\<close>

definition db_A30 :: db where
  "db_A30 = fst (invest_at Mongoose6 db_created investorA 30 ''h1'' 1000 100)"

definition db_B20 :: db where
  "db_B20 = fst (invest_at Mongoose6 db_A30 investorB 20 ''h2'' 2000 101)"

definition db_A_harvested :: db where
  "db_A_harvested =
     fst (update_progress Mongoose6 db_B20 100 (Some ''100'') None
            \<lparr>now = 5000, payout_txHash = ''p1''\<rparr>)"

definition db_B_harvested :: db where
  "db_B_harvested =
     fst (update_progress Mongoose6 db_A_harvested 101 (Some ''100'') None
            \<lparr>now = 6000, payout_txHash = ''p2''\<rparr>)"

text \<open>Investor A offers 60 to the request for 50; afterwards the farmer sends
  \<^verbatim>\<open>{status: 'funded'}\<close>, which saves the document.\<close>

definition db_over :: db where
  "db_over = fst (invest_at Mongoose6 db_created investorA 60 ''h1'' 1000 100)"

definition db_over_saved :: db where
  "db_over_saved =
     fst (update_request Mongoose6 db_over farmer1 1 None (Some ''funded'') 2000)"

text \<open>Investor A invests 10 three times, at 0, 3 and 6 seconds.\<close>

definition db_first :: db where
  "db_first = fst (invest_at Mongoose6 db_created investorA 10 ''h1'' 0 100)"

definition db_second :: db where
  "db_second = fst (invest_at Mongoose6 db_first investorA 10 ''h2'' 3000 101)"

definition db_third :: db where
  "db_third = fst (invest_at Mongoose6 db_second investorA 10 ''h3'' 6000 102)"




section \<open>Lookups and writes\<close>

lemma find_key: "find (\<lambda>x. key x = k) xs = Some r \<Longrightarrow> key r = k"
  by (induction xs) (auto split: if_splits)


lemma replace_doc_same:
  "find (\<lambda>x. key x = key r) xs = Some r \<Longrightarrow> replace_doc key r xs = xs"
  by (induction xs) (auto split: if_splits)


lemma store_inv_same: "find_inv s (inv_id r) = Some r \<Longrightarrow> store_inv s r = s"
  by (simp add: find_inv_def store_inv_def replace_doc_same)







text \<open>The response is built after the writes: the database a handler leaves does not
  depend on the version of the library.\<close>

lemma invest_writes_version: "fst (invest m s u pf af env) = fst (invest m' s u pf af env)"
  by (simp add: invest_def split: field.splits prod.splits sum.splits)

lemma update_progress_writes_version:
  "fst (update_progress m s i pf note env) = fst (update_progress m' s i pf note env)"
  by (simp add: update_progress_def split: option.splits prod.splits sum.splits)

lemma update_request_writes_version:
  "fst (update_request m s u i note st clock) = fst (update_request m' s u i note st clock)"
  by (simp add: update_request_def split: option.splits prod.splits sum.splits)

text \<open>No save ever stores a terminal status: the hook derives the status from the funded
  amount.\<close>

lemma pre_save_status: "status (pre_save r) \<in> {Pending, PartiallyFunded, Funded}"
  by (simp add: pre_save_def Let_def)

text \<open>Submitting 100 to a harvested record that is at 100 writes nothing.\<close>

lemma harvested_resubmit:
  assumes f: "find_inv s i = Some r"
    and h: "inv_status r = Harvested" "progress r = 100"
  shows "progress_writes s r 100 None env =
           (s, if validate_inv r then Inr r else Inl ValidationError)"
proof -
  have id: "inv_id r = i"
    using f by (auto simp: find_inv_def dest: find_key)
  have same: "r\<lparr>progress := 100\<rparr> = r"
    using h(2) by (metis investment.surjective investment.update_convs(8))
  have st: "store_inv s r = s"
    using f id by (simp add: store_inv_same)
  show ?thesis
    using h
    by (simp add: progress_writes_def same progress_transition_def append_note_def
          save_inv_def st completion_check_def)
qed

section \<open>Rejected progress updates\<close>

text \<open>
  Claim C9 says that a progress outside 0..100 is refused with a validation error, and
  that an update of a harvested or cancelled record is refused except for 100 sent
  again. The handler validates the integer that \<^verbatim>\<open>parseInt\<close> reads from the value, and its
  guard refuses every update of a cancelled record, 100 included. As amended: the handler
  answers 400 "Invalid progress value" when \<^verbatim>\<open>parseInt\<close> of the progress is NaN or lies
  outside 0..100, and 400 "Cannot update progress ... terminal state" when the record is
  cancelled, or harvested and the parsed progress is below 100, writing nothing in
  either case; a progress that parses to 100, sent with no update text to a harvested
  record that is at 100, passes both checks and writes nothing.
\<close>

theorem update_progress_rejects:
  "((pf = None \<or> (\<exists>t. pf = Some t \<and> parseInt10 t = None) \<or>
     (\<exists>t n. pf = Some t \<and> parseInt10 t = Some n \<and> (n < 0 \<or> 100 < n)))
      \<longrightarrow> update_progress m s i pf note env = (s, Inl InvalidProgressValue)) \<and>
   (find_inv s i = Some r \<and> parseInt10 t = Some n \<and> 0 \<le> n \<and> n \<le> 100 \<and>
    (inv_status r = InvCancelled \<or> inv_status r = Harvested \<and> n < 100)
      \<longrightarrow> update_progress m s i (Some t) note env = (s, Inl TerminalState)) \<and>
   (find_inv s i = Some r \<and> parseInt10 t = Some 100 \<and> inv_status r = Harvested \<and>
    progress r = 100
      \<longrightarrow> fst (update_progress m s i (Some t) None env) = s \<and>
          snd (update_progress m s i (Some t) None env) \<noteq> Inl InvalidProgressValue \<and>
          snd (update_progress m s i (Some t) None env) \<noteq> Inl TerminalState)"
proof (intro conjI impI)
  assume "pf = None \<or> (\<exists>t. pf = Some t \<and> parseInt10 t = None) \<or>
     (\<exists>t n. pf = Some t \<and> parseInt10 t = Some n \<and> (n < 0 \<or> 100 < n))"
  then show "update_progress m s i pf note env = (s, Inl InvalidProgressValue)"
    by (auto simp: update_progress_def)
next
  assume "find_inv s i = Some r \<and> parseInt10 t = Some n \<and> 0 \<le> n \<and> n \<le> 100 \<and>
    (inv_status r = InvCancelled \<or> inv_status r = Harvested \<and> n < 100)"
  then show "update_progress m s i (Some t) note env = (s, Inl TerminalState)"
    by (auto simp: update_progress_def)
next
  assume a: "find_inv s i = Some r \<and> parseInt10 t = Some 100 \<and> inv_status r = Harvested \<and>
    progress r = 100"
  then have w: "progress_writes s r 100 None env =
      (s, if validate_inv r then Inr r else Inl ValidationError)"
    using harvested_resubmit [of s i r env] by simp
  from a w show "fst (update_progress m s i (Some t) None env) = s"
    by (simp add: update_progress_def)
  from a w show "snd (update_progress m s i (Some t) None env) \<noteq> Inl InvalidProgressValue"
    by (simp add: update_progress_def respond_investment_def)
  from a w show "snd (update_progress m s i (Some t) None env) \<noteq> Inl TerminalState"
    by (simp add: update_progress_def respond_investment_def)
qed

text \<open>Claim C9 as stated fails: 100.5 lies outside 0..100, and sent to the active record
  of \<open>db_funded\<close> it is read as 100; the record is harvested and its payout is written.\<close>

theorem update_progress_fraction_counterexample:
  "parseInt10 ''100.5'' = Some 100 \<and>
   map inv_status (investments db_funded) = [Active] \<and>
   map tx_type (transactions db_funded) = [TxInvestment] \<and>
   snd (update_progress Mongoose5 db_funded 100 (Some ''100.5'') None payout_env)
     = Inl ServerError \<and>
   snd (update_progress Mongoose6 db_funded 100 (Some ''100.5'') None payout_env)
     = Inl ServerError \<and>
   map inv_status (investments db_fraction) = [Harvested] \<and>
   map progress (investments db_fraction) = [100] \<and>
   map tx_type (transactions db_fraction) = [TxInvestment, TxPayout]"
  by code_simp

theorem update_progress_rejects_witness:
  "update_progress Mongoose6 db_harvested 100 (Some ''101'') None later_env =
     (db_harvested, Inl InvalidProgressValue) \<and>
   update_progress Mongoose6 db_harvested 100 (Some ''abc'') None later_env =
     (db_harvested, Inl InvalidProgressValue) \<and>
   find_inv db_harvested 100 = Some rec_harvested \<and>
   update_progress Mongoose6 db_harvested 100 (Some ''50'') None later_env =
     (db_harvested, Inl TerminalState) \<and>
   fst (update_progress Mongoose6 db_harvested 100 (Some ''100'') None later_env) = db_harvested \<and>
   snd (update_progress Mongoose6 db_harvested 100 (Some ''100'') None later_env)
     \<noteq> Inl TerminalState"
proof -
  have f: "find_inv db_harvested 100 = Some rec_harvested"
    by code_simp
  have p: "parseInt10 ''101'' = Some 101" "parseInt10 ''abc'' = None"
    "parseInt10 ''50'' = Some 50" "parseInt10 ''100'' = Some 100"
    by code_simp+
  have r: "inv_status rec_harvested = Harvested" "progress rec_harvested = 100"
    by (simp_all add: rec_harvested_def)
  show ?thesis
    using update_progress_rejects
            [of "Some ''101''" Mongoose6 db_harvested 100 None later_env rec_harvested
                "''50''" 50]
          update_progress_rejects
            [of "Some ''abc''" Mongoose6 db_harvested 100 None later_env rec_harvested
                "''100''" 100]
          f p r
    by simp
qed

section \<open>One payout per record\<close>

text \<open>
  Claim C8: calling the progress handler with 100 twice writes exactly one payout entry,
  of \<open>amount * roi / 100\<close>, leaves \<open>payoutNotified = True\<close>, and the second call
  succeeds as a no-op. On the record of \<open>db_funded\<close> (50 invested at 25 percent) the
  writes are as claimed: the first call adds the payout entry of 12.5 and harvests the
  record, the second call writes nothing. But neither call succeeds: both are answered
  with 500, under either version of the library.
\<close>

theorem payout_written_once_answers_500:
  "map tx_type (transactions db_funded) = [TxInvestment] \<and>
   update_progress Mongoose5 db_funded 100 (Some ''100'') None payout_env
     = (db_harvested, Inl ServerError) \<and>
   update_progress Mongoose6 db_funded 100 (Some ''100'') None payout_env
     = (db_harvested, Inl ServerError) \<and>
   find_inv db_harvested 100 = Some rec_harvested \<and>
   map tx_type (transactions db_harvested) = [TxInvestment, TxPayout] \<and>
   map tx_amount (transactions db_harvested) = [50, 25 / 2] \<and>
   update_progress Mongoose5 db_harvested 100 (Some ''100'') None later_env
     = (db_harvested, Inl ServerError) \<and>
   update_progress Mongoose6 db_harvested 100 (Some ''100'') None later_env
     = (db_harvested, Inl ServerError)"
  by code_simp

section \<open>What an Invest call does\<close>





section \<open>Investing in a cancelled request\<close>




section \<open>Overfunding and the derived status\<close>

text \<open>
  Claim C1: an investment that would take the funded amount above the requested amount
  fails with Overfunding and changes nothing. The handler has no such check. Here the
  request is for 50 and nothing is funded; the investment of 60 is written: the funded
  amount is 60, the entry of 60 is in the investor list, and the record and the ledger
  entry of 60 exist. The call is answered with 500, which comes from building the
  response after the writes.
\<close>

theorem invest_overfunding_accepted:
  "map amount (fundingRequests db_created) = [50] \<and>
   map fundedAmount (fundingRequests db_created) = [0] \<and>
   invest_at Mongoose5 db_created investorA 60 ''h1'' 1000 100 = (db_over, Inl ServerError) \<and>
   invest_at Mongoose6 db_created investorA 60 ''h1'' 1000 100 = (db_over, Inl ServerError) \<and>
   map fundedAmount (fundingRequests db_over) = [60] \<and>
   map (map entry_amount \<circ> investors) (fundingRequests db_over) = [[60]] \<and>
   map inv_amount (investments db_over) = [60] \<and>
   map tx_amount (transactions db_over) = [60]"
  by code_simp

text \<open>
  Claim C3: in every reachable state \<open>0 \<le> fundedAmount \<le> amount\<close> and the funded amount
  is the sum of the entries. After Create and the investment of 60 the funded amount, 60,
  exceeds the amount, 50. The next save of the document (here the farmer's status update)
  runs \<open>pre_save\<close>, which clamps the funded amount to 50 while the entries still sum
  to 60.
\<close>

theorem funded_amount_invariant_broken:
  "map amount (fundingRequests db_over) = [50] \<and>
   map fundedAmount (fundingRequests db_over) = [60] \<and>
   map_sum id status (snd (update_request Mongoose5 db_over farmer1 1 None (Some ''funded'') 2000))
     = Inr Funded \<and>
   update_request Mongoose6 db_over farmer1 1 None (Some ''funded'') 2000
     = (db_over_saved, Inl ServerError) \<and>
   fst (update_request Mongoose5 db_over farmer1 1 None (Some ''funded'') 2000) = db_over_saved \<and>
   map fundedAmount (fundingRequests db_over_saved) = [50] \<and>
   map (sum_list \<circ> map entry_amount \<circ> investors) (fundingRequests db_over_saved) = [60]"
  by code_simp

text \<open>
  Claim C4: the stored status of a request that is not terminal follows its funded amount,
  in particular right after a successful Invest. The update of Invest runs no save hook:
  after the writes of A's investment of 30 the status is still pending, and after those
  of B's 20 the request is fully funded (50 of 50) and still pending.
\<close>

theorem invest_leaves_status_stale:
  "map inv_amount (investments db_A30) = [30] \<and>
   map tx_amount (transactions db_A30) = [30] \<and>
   map fundedAmount (fundingRequests db_A30) = [30] \<and>
   map status (fundingRequests db_A30) = [Pending] \<and>
   map inv_amount (investments db_B20) = [30, 20] \<and>
   map tx_amount (transactions db_B20) = [30, 20] \<and>
   map fundedAmount (fundingRequests db_B20) = [50] \<and>
   map amount (fundingRequests db_B20) = [50] \<and>
   map status (fundingRequests db_B20) = [Pending]"
  by code_simp

section \<open>Completion\<close>

text \<open>
  Claim C7: when the last record of a project is harvested, the project becomes
  completed. In the scenario A's record is harvested first, then B's: after the second
  call both records are harvested, both payouts are in the ledger, the handler has set
  the status to completed and saved, and the stored status is funded.
\<close>

theorem all_harvested_not_completed:
  "map inv_status (investments db_A_harvested) = [Harvested, Active] \<and>
   map inv_status (investments db_B_harvested) = [Harvested, Harvested] \<and>
   map tx_type (transactions db_B_harvested) = [TxInvestment, TxInvestment, TxPayout, TxPayout] \<and>
   map n_type (notifications db_B_harvested)
     = [''funding'', ''payout'', ''payout'', ''payout'', ''payout'', ''update''] \<and>
   map status (fundingRequests db_B_harvested) = [Funded]"
  by code_simp

section \<open>Correlation ids\<close>

text \<open>
  Claim C10: the record and the ledger entry of a successful Invest carry the hash of the
  entry that this call appended. The handler takes the hash from the first entry with the
  same investor and amount dated within five seconds. Of three investments of 10 by A, at
  0, 3 and 6 seconds, the second stops at the ledger, which refuses the repeated hash,
  and the third writes its record and its ledger entry with the hash of the second
  call's entry, \<open>h2\<close>, not with its own, \<open>h3\<close>.
\<close>

theorem third_invest_takes_second_hash:
  "map (map entry_txHash \<circ> investors) (fundingRequests db_first) = [[''h1'']] \<and>
   map inv_txHash (investments db_first) = [''h1''] \<and>
   map tx_txHash (transactions db_first) = [''h1''] \<and>
   map (map entry_txHash \<circ> investors) (fundingRequests db_second) = [[''h1'', ''h2'']] \<and>
   map inv_txHash (investments db_second) = [''h1'', ''h1''] \<and>
   map tx_txHash (transactions db_second) = [''h1''] \<and>
   map (map entry_txHash \<circ> investors) (fundingRequests db_third) = [[''h1'', ''h2'', ''h3'']] \<and>
   map inv_txHash (investments db_third) = [''h1'', ''h1'', ''h2''] \<and>
   map tx_txHash (transactions db_third) = [''h1'', ''h2'']"
  by code_simp

end
